theory Spec2Isabelle
  imports Main
begin

section \<open>Host values, trackers, errors\<close>

text \<open>
  The callable hierarchy of \<^verbatim>\<open>sot/opcode_translator/executor/variables/callable.py\<close>
  wraps values of the host interpreter. Only the shape the hierarchy inspects is kept:
  the three debug intrinsics of \<^verbatim>\<open>utils\<close> (compared with \<^verbatim>\<open>is\<close>), function objects
  (which carry \<^verbatim>\<open>__name__\<close>), callables without a name, bound methods
  (\<^verbatim>\<open>__self__\<close>, \<^verbatim>\<open>__func__\<close>), builtin functions and methods (which carry
  \<^verbatim>\<open>__self__\<close> and \<^verbatim>\<open>__name__\<close> but no \<^verbatim>\<open>__func__\<close>), layers (their \<^verbatim>\<open>id\<close> and
  \<^verbatim>\<open>training\<close> flag) and types.
\<close>

datatype host =
    HNone
  | HBool bool
  | HStr string
  | ASSERT
  | psdb_print
  | psdb_breakpoint
  | HFunction string
  | HCallable nat
  | HMethod host host
  | HBuiltinMethod host string
  | HLayer nat bool
  | HType string
  | HObject nat

text \<open>
  \<^verbatim>\<open>value.__name__\<close>: \<open>None\<close> where the attribute does not exist. A bound method
  answers with the name of its \<^verbatim>\<open>__func__\<close>.
\<close>

fun dunder_name :: "host \<Rightarrow> string option" where
  "dunder_name ASSERT = Some ''ASSERT''"
| "dunder_name psdb_print = Some ''psdb_print''"
| "dunder_name psdb_breakpoint = Some ''psdb_breakpoint''"
| "dunder_name (HFunction n) = Some n"
| "dunder_name (HType n) = Some n"
| "dunder_name (HMethod s f) = dunder_name f"
| "dunder_name (HBuiltinMethod s n) = Some n"
| "dunder_name _ = None"

text \<open>
  \<^verbatim>\<open>value.__self__\<close> and \<^verbatim>\<open>value.__func__\<close>: a bound method has both, a builtin
  function or method has \<^verbatim>\<open>__self__\<close> only.
\<close>

fun dunder_self :: "host \<Rightarrow> host option" where
  "dunder_self (HMethod s f) = Some s"
| "dunder_self (HBuiltinMethod s n) = Some s"
| "dunder_self _ = None"

fun dunder_func :: "host \<Rightarrow> host option" where
  "dunder_func (HMethod s f) = Some f"
| "dunder_func _ = None"

text \<open>
  Variables are Python objects with identity: a Variable is referred to by its address
  in a store, and a tracker refers to Variables by address.
\<close>

type_synonym addr = nat

datatype tracker =
    DanglingTracker
  | DummyTracker "addr list"
  | GetAttrTracker addr string
  | OtherTracker string

text \<open>
  The exceptions that cross the hierarchy. \<open>BreakGraphError\<close> keeps the argument of the
  raise: \<open>None\<close> is \<^verbatim>\<open>BreakGraphError()\<close>, \<open>Some m\<close> is \<^verbatim>\<open>BreakGraphError(m)\<close>.
\<close>

datatype error =
    BreakGraphError "string option"
  | FallbackError string
  | InnerError string
  | NotImplementedError string
  | AssertionError
  | IndexError
  | AttributeError
  | RecursionError
  | HostError string

text \<open>\<^verbatim>\<open>isinstance(e, FallbackErrorBase)\<close>: the break-graph and fallback errors.\<close>

fun is_FallbackErrorBase :: "error \<Rightarrow> bool" where
  "is_FallbackErrorBase (BreakGraphError m) = True"
| "is_FallbackErrorBase (FallbackError m) = True"
| "is_FallbackErrorBase _ = False"

text \<open>\<^verbatim>\<open>str(e)\<close>, as the f-string of the re-raise formats the cause.\<close>

fun error_str :: "error \<Rightarrow> string" where
  "error_str (BreakGraphError None) = []"
| "error_str (BreakGraphError (Some m)) = m"
| "error_str (FallbackError m) = m"
| "error_str (InnerError m) = m"
| "error_str (NotImplementedError m) = m"
| "error_str (HostError m) = m"
| "error_str _ = []"

section \<open>Variables and the trace state\<close>

text \<open>
  One constructor per class of the file, with the fields its \<^verbatim>\<open>__init__\<close> stores
  (\<^verbatim>\<open>value\<close>; \<^verbatim>\<open>method_name\<close>; \<^verbatim>\<open>bound_instance\<close>, \<^verbatim>\<open>fn\<close>, \<^verbatim>\<open>method_name\<close>;
  \<^verbatim>\<open>name\<close>). \<open>OtherVariable\<close> stands for every Variable class defined elsewhere
  (constants, tensors, containers).
\<close>

datatype obj =
    CallableVariable
  | FunctionVariable host
  | UserDefinedFunctionVariable host
  | PaddleApiVariable host
  | TensorFunctionVariable host string
  | MethodVariable addr addr "string option"
  | LayerVariable host
  | UserDefinedLayerVariable host
  | BuiltinVariable host
  | UserDefinedGeneratorVariable host
  | PaddleLayerVariable host string
  | OtherVariable host

record var =
  v_obj :: obj
  v_tracker :: tracker

text \<open>\<^verbatim>\<open>var.value\<close>: \<open>None\<close> where the class stores no such attribute.\<close>

fun obj_value :: "obj \<Rightarrow> host option" where
  "obj_value CallableVariable = None"
| "obj_value (FunctionVariable v) = Some v"
| "obj_value (UserDefinedFunctionVariable v) = Some v"
| "obj_value (PaddleApiVariable v) = Some v"
| "obj_value (TensorFunctionVariable v m) = Some v"
| "obj_value (MethodVariable i f m) = None"
| "obj_value (LayerVariable v) = Some v"
| "obj_value (UserDefinedLayerVariable v) = Some v"
| "obj_value (BuiltinVariable v) = Some v"
| "obj_value (UserDefinedGeneratorVariable v) = Some v"
| "obj_value (PaddleLayerVariable v n) = Some v"
| "obj_value (OtherVariable v) = Some v"

text \<open>
  The state threaded through every operation: the store of Variables and the trace
  state of the \<^verbatim>\<open>FunctionGraph\<close> (of a type \<open>'g\<close> the hierarchy never looks into).
\<close>

record 'g state =
  heap :: "var list"
  graph :: "'g"

type_synonym kwargs = "(string \<times> addr) list"

type_synonym ('a, 'g) res = "(error + 'a) \<times> 'g state"

text \<open>Running a constructor: the new object gets the next address.\<close>

definition alloc :: "var \<Rightarrow> 'g state \<Rightarrow> addr \<times> 'g state" where
  "alloc v st = (length (heap st), st\<lparr>heap := heap st @ [v]\<rparr>)"

text \<open>The assignment \<^verbatim>\<open>var.tracker = t\<close>.\<close>

definition set_tracker :: "addr \<Rightarrow> tracker \<Rightarrow> 'g state \<Rightarrow> 'g state" where
  "set_tracker a t st = st\<lparr>heap := (heap st)[a := (heap st ! a)\<lparr>v_tracker := t\<rparr>]\<rparr>"

record MagicMethod =
  mm_name :: string
  is_reverse :: bool

record StringifyExpression =
  expr :: string
  free_vars :: "(string \<times> host) list"

section \<open>Collaborators\<close>

text \<open>
  Everything the file imports and calls but does not define is a field of this record:
  the graph builder (\<^verbatim>\<open>FunctionGraph\<close>), the classification tables and reflection
  helpers of \<^verbatim>\<open>utils\<close>, the \<^verbatim>\<open>Dispatcher\<close>, the inline executor, the
  \<^verbatim>\<open>VariableFactory\<close>, the constructors of \<^verbatim>\<open>basic.py\<close>, \<^verbatim>\<open>VariableBase\<close>
  (\<^verbatim>\<open>get_py_type\<close>, its \<^verbatim>\<open>__call__\<close>), the host interpreter, and the tracker and
  guard modules.
  \<^item> \<open>inline_call\<close> is the body of the \<^verbatim>\<open>try\<close> in
    \<^verbatim>\<open>UserDefinedFunctionVariable.call_function\<close>: constructing the
    \<^verbatim>\<open>OpcodeInlineExecutor\<close> and running it under the \<^verbatim>\<open>EventGuard\<close>.
  \<^item> \<open>type_getattr\<close> answers \<^verbatim>\<open>hasattr(t, n)\<close> and \<^verbatim>\<open>getattr(t, n)\<close> together.
  \<^item> \<open>host_call\<close> calls a host callable on host values.
  \<^item> \<open>is_traceable\<close> is the condition the decorator \<^verbatim>\<open>check_guard\<close> asserts before
    it runs the decorated method.
\<close>

record ('g, 'm) collaborators =
  save_memo :: "'g \<Rightarrow> 'm"
  restore_memo :: "'m \<Rightarrow> 'g \<Rightarrow> 'g"
  add_print_variables :: "addr \<Rightarrow> 'g state \<Rightarrow> 'g state"
  call_paddle_api :: "host \<Rightarrow> addr list \<Rightarrow> kwargs \<Rightarrow> 'g state \<Rightarrow> (addr, 'g) res"
  call_tensor_method :: "string \<Rightarrow> addr list \<Rightarrow> kwargs \<Rightarrow> 'g state \<Rightarrow> (addr, 'g) res"
  call_layer :: "addr \<Rightarrow> addr list \<Rightarrow> kwargs \<Rightarrow> 'g state \<Rightarrow> (addr, 'g) res"
  is_break_graph_api :: "host \<Rightarrow> bool"
  is_break_graph_tensor_methods :: "string \<Rightarrow> bool"
  magic_method_builtin_dispatch :: "host \<Rightarrow> MagicMethod list"
  dispatch :: "host \<Rightarrow> addr list \<Rightarrow> kwargs \<Rightarrow> 'g state \<Rightarrow>
                 (addr list \<Rightarrow> kwargs \<Rightarrow> 'g state \<Rightarrow> (addr, 'g) res) option"
  inline_call :: "addr \<Rightarrow> addr list \<Rightarrow> kwargs \<Rightarrow> 'g state \<Rightarrow> (addr, 'g) res"
  from_value :: "host \<Rightarrow> tracker \<Rightarrow> 'g state \<Rightarrow> addr \<times> 'g state"
  wrap_literal :: "host \<Rightarrow> 'g state \<Rightarrow> addr \<times> 'g state"
  PrintStmtVariable :: "addr list \<times> kwargs \<Rightarrow> 'g state \<Rightarrow> addr \<times> 'g state"
  base_call :: "addr \<Rightarrow> addr list \<Rightarrow> kwargs \<Rightarrow> 'g state \<Rightarrow> (addr, 'g) res"
  get_py_type :: "var \<Rightarrow> host"
  host_class :: "host \<Rightarrow> host"
  type_getattr :: "host \<Rightarrow> string \<Rightarrow> host option"
  host_call :: "host \<Rightarrow> host list \<Rightarrow> error + host"
  host_str :: "host \<Rightarrow> string"
  trace_value_from_frame :: "tracker \<Rightarrow> StringifyExpression"
  is_traceable :: "tracker \<Rightarrow> bool"
  union_free_vars :: "(string \<times> host) list list \<Rightarrow> (string \<times> host) list"

section \<open>PaddleApiVariable and TensorFunctionVariable\<close>

definition PaddleApiVariable_call_function ::
  "('g, 'm) collaborators \<Rightarrow> host \<Rightarrow> addr list \<Rightarrow> kwargs \<Rightarrow> 'g state \<Rightarrow> (addr, 'g) res" where
  "PaddleApiVariable_call_function env self_value args kw st =
     (if is_break_graph_api env self_value then
        (case dunder_name self_value of
           None \<Rightarrow> (Inl AttributeError, st)
         | Some n \<Rightarrow>
             (Inl (BreakGraphError (Some (''breakgraph by unsupport function: '' @ n))), st))
      else call_paddle_api env self_value args kw st)"

definition TensorFunctionVariable_call_function ::
  "('g, 'm) collaborators \<Rightarrow> string \<Rightarrow> addr list \<Rightarrow> kwargs \<Rightarrow> 'g state \<Rightarrow> (addr, 'g) res" where
  "TensorFunctionVariable_call_function env method_name args kw st =
     (if is_break_graph_tensor_methods env method_name then (Inl (BreakGraphError None), st)
      else call_tensor_method env method_name args kw st)"

section \<open>UserDefinedFunctionVariable\<close>

text \<open>
  \<^verbatim>\<open>handle_psdb_function\<close>: the debug intrinsics run at once; \<open>Inr None\<close> is the
  \<^verbatim>\<open>return None\<close> of every other function.
\<close>

definition handle_psdb_function ::
  "('g, 'm) collaborators \<Rightarrow> host \<Rightarrow> addr list \<Rightarrow> kwargs \<Rightarrow> 'g state \<Rightarrow> (addr option, 'g) res" where
  "handle_psdb_function env self_value args kw st =
     (if self_value = ASSERT then
        (case args of
           [] \<Rightarrow> (Inl IndexError, st)
         | a # _ \<Rightarrow>
             (case obj_value (v_obj (heap st ! a)) of
                None \<Rightarrow> (Inl AttributeError, st)
              | Some x \<Rightarrow>
                  (case host_call env ASSERT [x] of
                     Inl e \<Rightarrow> (Inl e, st)
                   | Inr r \<Rightarrow> (let (c, st1) = wrap_literal env r st in (Inr (Some c), st1)))))
      else if self_value = psdb_print then
        (let (sot_prefix, st1) = wrap_literal env (HStr ''[SOT]'') st;
             (p, st2) = PrintStmtVariable env (sot_prefix # args, kw) st1;
             st3 = add_print_variables env p st2;
             (c, st4) = wrap_literal env HNone st3
         in (Inr (Some c), st4))
      else if self_value = psdb_breakpoint then
        (let (c, st1) = wrap_literal env HNone st in (Inr (Some c), st1))
      else (Inr None, st))"

text \<open>
  \<^verbatim>\<open>call_function\<close>: the checkpoint is taken after the intrinsics are ruled out; only an
  exception of class \<^verbatim>\<open>FallbackErrorBase\<close> is caught, and then the graph is restored
  before the \<^verbatim>\<open>BreakGraphError\<close> is raised.
\<close>

definition UserDefinedFunctionVariable_call_function ::
  "('g, 'm) collaborators \<Rightarrow> addr \<Rightarrow> host \<Rightarrow> addr list \<Rightarrow> kwargs \<Rightarrow> 'g state \<Rightarrow> (addr, 'g) res" where
  "UserDefinedFunctionVariable_call_function env self self_value args kw st =
     (case handle_psdb_function env self_value args kw st of
        (Inl e, st1) \<Rightarrow> (Inl e, st1)
      | (Inr (Some result), st1) \<Rightarrow> (Inr result, st1)
      | (Inr None, st1) \<Rightarrow>
          (let checkpoint = save_memo env (graph st1) in
           case inline_call env self args kw st1 of
             (Inr output, st2) \<Rightarrow> (Inr output, st2)
           | (Inl e, st2) \<Rightarrow>
               if is_FallbackErrorBase e then
                 (Inl (BreakGraphError (Some (host_str env self_value
                         @ '' is raise a inline call error. '' @ error_str e))),
                  st2\<lparr>graph := restore_memo env checkpoint (graph st2)\<rparr>)
               else (Inl e, st2)))"

section \<open>MethodVariable and FunctionVariable.bind\<close>

text \<open>
  \<open>invoke\<close> is \<^verbatim>\<open>CallableVariable.__call__\<close> on another Variable: the dynamic dispatch
  defined at the end of the model.
\<close>

definition MethodVariable_call_function ::
  "(addr \<Rightarrow> addr list \<Rightarrow> kwargs \<Rightarrow> 'g state \<Rightarrow> (addr, 'g) res) \<Rightarrow>
     addr \<Rightarrow> addr \<Rightarrow> addr list \<Rightarrow> kwargs \<Rightarrow> 'g state \<Rightarrow> (addr, 'g) res" where
  "MethodVariable_call_function invoke bound_instance fn args kw st =
     invoke fn (bound_instance # args) kw st"


text \<open>
  \<^verbatim>\<open>wrap_method\<close>: \<^verbatim>\<open>value.__self__\<close> and \<^verbatim>\<open>value.__func__\<close> are read only when the
  caller supplied no Variable (the conditional expressions of the source).
\<close>

definition wrap_method ::
  "('g, 'm) collaborators \<Rightarrow> host \<Rightarrow> tracker \<Rightarrow> addr option \<Rightarrow> addr option \<Rightarrow> string option \<Rightarrow>
     'g state \<Rightarrow> (addr, 'g) res" where
  "wrap_method env val tracker instance fn method_name st =
     (case (case instance of
              None \<Rightarrow>
                (case dunder_self val of
                   None \<Rightarrow> (Inl AttributeError, st)
                 | Some s \<Rightarrow> (let (i, st1) = from_value env s DanglingTracker st in (Inr i, st1)))
            | Some i \<Rightarrow> (Inr i, st)) of
        (Inl e, st1) \<Rightarrow> (Inl e, st1)
      | (Inr instance_var, st1) \<Rightarrow>
          (case (case fn of
                   None \<Rightarrow>
                     (case dunder_func val of
                        None \<Rightarrow> (Inl AttributeError, st1)
                      | Some f \<Rightarrow>
                          (let (v, st2) = from_value env f DanglingTracker st1 in (Inr v, st2)))
                 | Some f \<Rightarrow> (Inr f, st1)) of
             (Inl e, st2) \<Rightarrow> (Inl e, st2)
           | (Inr fn_var, st2) \<Rightarrow>
               (let (method_var, st3) =
                      alloc \<lparr>v_obj = MethodVariable instance_var fn_var method_name,
                             v_tracker = tracker\<rparr> st2;
                    st4 = (if instance = None
                           then set_tracker instance_var (GetAttrTracker method_var ''__self__'') st3
                           else st3);
                    st5 = (if fn = None
                           then set_tracker fn_var (GetAttrTracker method_var ''__func__'') st4
                           else st4)
                in (Inr method_var, st5))))"

text \<open>\<^verbatim>\<open>MethodVariable.from_value\<close>: \<^verbatim>\<open>inspect.ismethod\<close> holds of bound methods.\<close>

definition MethodVariable_from_value ::
  "('g, 'm) collaborators \<Rightarrow> host \<Rightarrow> tracker \<Rightarrow> 'g state \<Rightarrow> (addr option, 'g) res" where
  "MethodVariable_from_value env val tracker st =
     (case val of
        HMethod s f \<Rightarrow>
          (case wrap_method env val tracker None None None st of
             (Inl e, st1) \<Rightarrow> (Inl e, st1)
           | (Inr m, st1) \<Rightarrow> (Inr (Some m), st1))
      | _ \<Rightarrow> (Inr None, st))"

section \<open>LayerVariable and its subclasses\<close>





definition UserDefinedLayerVariable_call_function ::
  "('g, 'm) collaborators \<Rightarrow> addr \<Rightarrow> host \<Rightarrow> addr list \<Rightarrow> kwargs \<Rightarrow> 'g state \<Rightarrow> (addr, 'g) res" where
  "UserDefinedLayerVariable_call_function env self self_value args kw st =
     (case type_getattr env (host_class env self_value) ''__call__'' of
        None \<Rightarrow> (Inl AttributeError, st)
      | Some f \<Rightarrow>
          (let (fn_var, st1) =
                 alloc \<lparr>v_obj = UserDefinedFunctionVariable f,
                        v_tracker = GetAttrTracker self ''__call__''\<rparr> st
           in UserDefinedFunctionVariable_call_function env fn_var f (self # args) kw st1))"

definition PaddleLayerVariable_call_function ::
  "('g, 'm) collaborators \<Rightarrow> addr \<Rightarrow> addr list \<Rightarrow> kwargs \<Rightarrow> 'g state \<Rightarrow> (addr, 'g) res" where
  "PaddleLayerVariable_call_function env self args kw st = call_layer env self args kw st"

section \<open>BuiltinVariable\<close>

text \<open>
  The loop over \<^verbatim>\<open>magic_methods\<close>. \<open>None\<close> is the loop running to its end;
  \<open>Some r\<close> is the loop left by \<^verbatim>\<open>return\<close> or by an exception. \<^verbatim>\<open>sorted_args[0]\<close>
  on an empty tuple raises \<^verbatim>\<open>IndexError\<close>, as \<^verbatim>\<open>args[0]\<close> does. The Variable
  found is called with \<^verbatim>\<open>*args\<close> alone, the keyword arguments are not passed on.
\<close>

fun magic_method_scan ::
  "('g, 'm) collaborators \<Rightarrow> (addr \<Rightarrow> addr list \<Rightarrow> kwargs \<Rightarrow> 'g state \<Rightarrow> (addr, 'g) res) \<Rightarrow>
     addr list \<Rightarrow> MagicMethod list \<Rightarrow> 'g state \<Rightarrow> (addr, 'g) res option" where
  "magic_method_scan env invoke args [] st = None"
| "magic_method_scan env invoke args (magic_method # rest) st =
     (let sorted_args = (if is_reverse magic_method then rev args else args) in
      case sorted_args of
        [] \<Rightarrow> Some (Inl IndexError, st)
      | a0 # _ \<Rightarrow>
          (let arg_type = get_py_type env (heap st ! a0) in
           case type_getattr env arg_type (mm_name magic_method) of
             None \<Rightarrow> magic_method_scan env invoke args rest st
           | Some class_fn \<Rightarrow>
               (case args of
                  [] \<Rightarrow> Some (Inl IndexError, st)
                | first # _ \<Rightarrow>
                    (let (class_var, st1) =
                           from_value env arg_type (GetAttrTracker first ''__class__'') st
                     in case dunder_name class_fn of
                          None \<Rightarrow> Some (Inl AttributeError, st1)
                        | Some n \<Rightarrow>
                            (let (fn_var, st2) =
                                   from_value env class_fn (GetAttrTracker class_var n) st1
                             in Some (invoke fn_var args [] st2))))))"

definition BuiltinVariable_call_function ::
  "('g, 'm) collaborators \<Rightarrow> (addr \<Rightarrow> addr list \<Rightarrow> kwargs \<Rightarrow> 'g state \<Rightarrow> (addr, 'g) res) \<Rightarrow>
     host \<Rightarrow> addr list \<Rightarrow> kwargs \<Rightarrow> 'g state \<Rightarrow> (addr, 'g) res" where
  "BuiltinVariable_call_function env invoke self_value args kw st =
     (case dispatch env self_value args kw st of
        Some handler \<Rightarrow> handler args kw st
      | None \<Rightarrow>
          (case magic_method_scan env invoke args
                  (magic_method_builtin_dispatch env self_value) st of
             Some r \<Rightarrow> r
           | None \<Rightarrow>
               (Inl (BreakGraphError (Some (''Not support builtin function: '' @
                  (case dunder_name self_value of
                     Some n \<Rightarrow> n
                   | None \<Rightarrow> host_str env self_value)))), st)))"

section \<open>UserDefinedGeneratorVariable\<close>

definition UserDefinedGeneratorVariable_call_function ::
  "('g, 'm) collaborators \<Rightarrow> addr \<Rightarrow> host \<Rightarrow> addr list \<Rightarrow> kwargs \<Rightarrow> 'g state \<Rightarrow> (addr, 'g) res" where
  "UserDefinedGeneratorVariable_call_function env self self_value args kw st =
     (case host_call env self_value [] of
        Inl e \<Rightarrow> (Inl e, st)
      | Inr iter \<Rightarrow>
          (let (var, st1) = from_value env iter (DummyTracker [self]) st in (Inr var, st1)))"

section \<open>Calling a Variable\<close>

text \<open>
  \<^verbatim>\<open>CallableVariable.__call__\<close> runs the \<^verbatim>\<open>call_function\<close> of the object's class; the
  classes that do not override it inherit the one that raises. A Variable of a class
  defined elsewhere is called through \<^verbatim>\<open>VariableBase\<close>. The first argument bounds the
  depth of nested calls, as the interpreter's recursion limit does.
\<close>

definition CallableVariable_call_function :: "'g state \<Rightarrow> (addr, 'g) res" where
  "CallableVariable_call_function st =
     (Inl (NotImplementedError ''call_function is not implemented.''), st)"

primrec call ::
  "nat \<Rightarrow> ('g, 'm) collaborators \<Rightarrow> addr \<Rightarrow> addr list \<Rightarrow> kwargs \<Rightarrow> 'g state \<Rightarrow> (addr, 'g) res" where
  "call 0 env f args kw st = (Inl RecursionError, st)"
| "call (Suc depth) env f args kw st =
     (case v_obj (heap st ! f) of
        CallableVariable \<Rightarrow> CallableVariable_call_function st
      | FunctionVariable v \<Rightarrow> CallableVariable_call_function st
      | UserDefinedFunctionVariable v \<Rightarrow>
          UserDefinedFunctionVariable_call_function env f v args kw st
      | PaddleApiVariable v \<Rightarrow> PaddleApiVariable_call_function env v args kw st
      | TensorFunctionVariable v method_name \<Rightarrow>
          TensorFunctionVariable_call_function env method_name args kw st
      | MethodVariable bound_instance fn method_name \<Rightarrow>
          MethodVariable_call_function (call depth env) bound_instance fn args kw st
      | LayerVariable v \<Rightarrow> CallableVariable_call_function st
      | UserDefinedLayerVariable v \<Rightarrow>
          UserDefinedLayerVariable_call_function env f v args kw st
      | BuiltinVariable v \<Rightarrow>
          BuiltinVariable_call_function env (call depth env) v args kw st
      | UserDefinedGeneratorVariable v \<Rightarrow>
          UserDefinedGeneratorVariable_call_function env f v args kw st
      | PaddleLayerVariable v layer_name \<Rightarrow> PaddleLayerVariable_call_function env f args kw st
      | OtherVariable v \<Rightarrow> base_call env f args kw st)"

section \<open>Vocabulary of the statements\<close>

subsection \<open>A concrete instance\<close>

text \<open>
  A small instance of the collaborators and a store with five Variables, on which the
  statements below are evaluated. The graph is the list of emitted statements, a
  checkpoint is a copy of it; the inline executor fails with a fallback error when it is
  given no argument and otherwise returns its first argument; \<^verbatim>\<open>to_tensor\<close> and
  \<^verbatim>\<open>numpy\<close> are the unsupported API and tensor method; the builtin \<^verbatim>\<open>add\<close> has the
  candidates \<^verbatim>\<open>__add__\<close> and \<^verbatim>\<open>__radd__\<close> (reflected), \<^verbatim>\<open>bool\<close> has \<^verbatim>\<open>__bool__\<close>,
  only the type of the object \<open>HObject 1\<close> defines \<^verbatim>\<open>__radd__\<close>, and the class of the
  layer defines \<^verbatim>\<open>__add__\<close> as a callable object that has no \<^verbatim>\<open>__name__\<close>.
\<close>

definition example_env :: "(string list, string list) collaborators" where
  "example_env =
     \<lparr>save_memo = (\<lambda>g. g),
      restore_memo = (\<lambda>m g. m),
      add_print_variables = (\<lambda>p st. st\<lparr>graph := graph st @ [''print'']\<rparr>),
      call_paddle_api = (\<lambda>f args kw st.
         (let (r, st1) = alloc \<lparr>v_obj = OtherVariable HNone, v_tracker = DummyTracker args\<rparr> st
          in (Inr r, st1\<lparr>graph := graph st1 @ [''api'']\<rparr>))),
      call_tensor_method = (\<lambda>m args kw st.
         (let (r, st1) = alloc \<lparr>v_obj = OtherVariable HNone, v_tracker = DummyTracker args\<rparr> st
          in (Inr r, st1\<lparr>graph := graph st1 @ [''method'']\<rparr>))),
      call_layer = (\<lambda>l args kw st.
         (let (r, st1) = alloc \<lparr>v_obj = OtherVariable HNone, v_tracker = DummyTracker (l # args)\<rparr> st
          in (Inr r, st1\<lparr>graph := graph st1 @ [''layer'']\<rparr>))),
      is_break_graph_api = (\<lambda>f. f = HFunction ''to_tensor''),
      is_break_graph_tensor_methods = (\<lambda>m. m = ''numpy''),
      magic_method_builtin_dispatch = (\<lambda>f.
         if f = HFunction ''add''
         then [\<lparr>mm_name = ''__add__'', is_reverse = False\<rparr>,
               \<lparr>mm_name = ''__radd__'', is_reverse = True\<rparr>]
         else if f = HType ''bool'' then [\<lparr>mm_name = ''__bool__'', is_reverse = False\<rparr>]
         else []),
      dispatch = (\<lambda>f args kw st.
         if f = HFunction ''len''
         then Some (\<lambda>args kw st.
                (let (r, st1) = alloc \<lparr>v_obj = OtherVariable HNone, v_tracker = DummyTracker args\<rparr> st
                 in (Inr r, st1\<lparr>graph := graph st1 @ [''len'']\<rparr>)))
         else None),
      inline_call = (\<lambda>self args kw st.
         if args = []
         then (Inl (FallbackError ''unsupported opcode''), st\<lparr>graph := graph st @ [''partial'']\<rparr>)
         else (Inr (hd args), st\<lparr>graph := graph st @ [''inlined'']\<rparr>)),
      from_value = (\<lambda>v t st.
         alloc \<lparr>v_obj = (case v of HFunction n \<Rightarrow> UserDefinedFunctionVariable v | _ \<Rightarrow> OtherVariable v),
                v_tracker = t\<rparr> st),
      wrap_literal = (\<lambda>v st. alloc \<lparr>v_obj = OtherVariable v, v_tracker = OtherTracker ''const''\<rparr> st),
      PrintStmtVariable = (\<lambda>p st. alloc \<lparr>v_obj = OtherVariable HNone, v_tracker = DanglingTracker\<rparr> st),
      base_call = (\<lambda>f args kw st. (Inl (InnerError ''not callable''), st)),
      get_py_type = (\<lambda>v. case obj_value (v_obj v) of
                             Some (HObject n) \<Rightarrow> HType (if n = 0 then ''A'' else ''B'')
                           | Some (HLayer i t) \<Rightarrow> HType ''Layer''
                           | _ \<Rightarrow> HType ''object''),
      host_class = (\<lambda>v. case v of HLayer i t \<Rightarrow> HType ''Layer'' | _ \<Rightarrow> HType ''object''),
      type_getattr = (\<lambda>t n.
         if t = HType ''B'' \<and> n = ''__radd__'' then Some (HFunction ''__radd__'')
         else if t = HType ''Layer'' \<and> n = ''__call__'' then Some (HFunction ''__call__'')
         else if t = HType ''Layer'' \<and> n = ''__add__'' then Some (HCallable 0)
         else None),
      host_call = (\<lambda>f xs. if f = HFunction ''gen'' \<and> xs = [] then Inr (HObject 7) else Inl (HostError ''TypeError'')),
      host_str = (\<lambda>v. case dunder_name v of Some n \<Rightarrow> ''<function '' @ n @ ''>'' | None \<Rightarrow> ''<object>''),
      trace_value_from_frame = (\<lambda>t. case t of OtherTracker e \<Rightarrow> \<lparr>expr = e, free_vars = []\<rparr>
                                         | _ \<Rightarrow> \<lparr>expr = ''?'', free_vars = []\<rparr>),
      is_traceable = (\<lambda>t. t \<noteq> DanglingTracker),
      union_free_vars = concat\<rparr>"

definition example_state :: "string list state" where
  "example_state =
     \<lparr>heap =
        [\<lparr>v_obj = OtherVariable (HObject 0), v_tracker = OtherTracker ''x''\<rparr>,
         \<lparr>v_obj = OtherVariable (HObject 1), v_tracker = OtherTracker ''y''\<rparr>,
         \<lparr>v_obj = UserDefinedFunctionVariable (HFunction ''foo''), v_tracker = OtherTracker ''foo''\<rparr>,
         \<lparr>v_obj = UserDefinedLayerVariable (HLayer 140 True), v_tracker = OtherTracker ''net''\<rparr>,
         \<lparr>v_obj = BuiltinVariable (HFunction ''add''), v_tracker = OtherTracker ''add''\<rparr>],
      graph = [''stmt0'']\<rparr>"

subsection \<open>Conditions on the callee and on the collaborators\<close>

text \<open>The three functions \<^verbatim>\<open>handle_psdb_function\<close> answers for.\<close>

definition is_debug_intrinsic :: "host \<Rightarrow> bool" where
  "is_debug_intrinsic v \<longleftrightarrow> v = ASSERT \<or> v = psdb_print \<or> v = psdb_breakpoint"

text \<open>
  The contract of the graph builder's checkpoint: restoring a checkpoint gives back the
  graph it was taken from, whatever happened to the graph since.
\<close>

definition memo_roundtrip :: "('g, 'm) collaborators \<Rightarrow> bool" where
  "memo_roundtrip env \<longleftrightarrow> (\<forall>g g'. restore_memo env (save_memo env g) g' = g)"

text \<open>
  The operand of the magic-method tier in the words of the specification: the first
  positional argument for a forward name, the last for a reflected one; and what the
  operand's type answers for a candidate name.
\<close>

definition checked_operand :: "MagicMethod \<Rightarrow> addr list \<Rightarrow> addr" where
  "checked_operand m args = (if is_reverse m then last args else hd args)"

definition candidate_lookup ::
  "('g, 'm) collaborators \<Rightarrow> 'g state \<Rightarrow> addr list \<Rightarrow> MagicMethod \<Rightarrow> host option" where
  "candidate_lookup env st args m =
     type_getattr env (get_py_type env (heap st ! checked_operand m args)) (mm_name m)"

text \<open>The name in the message of the last tier.\<close>

definition builtin_name :: "('g, 'm) collaborators \<Rightarrow> host \<Rightarrow> string" where
  "builtin_name env v = (case dunder_name v of Some n \<Rightarrow> n | None \<Rightarrow> host_str env v)"

text \<open>
  \<open>trackers_kept st st'\<close>: every Variable of \<open>st\<close> is still there in \<open>st'\<close>, with the
  tracker it had.
\<close>

definition trackers_kept :: "'g state \<Rightarrow> 'g state \<Rightarrow> bool" where
  "trackers_kept st st' \<longleftrightarrow>
     length (heap st) \<le> length (heap st') \<and>
     (\<forall>a < length (heap st). v_tracker (heap st' ! a) = v_tracker (heap st ! a))"

text \<open>
  The contract of \<^verbatim>\<open>VariableFactory.from_value\<close>: the Variable returned is a new object,
  it carries the tracker it was given, and no tracker of an older Variable changes.
\<close>

definition factory_contract :: "('g, 'm) collaborators \<Rightarrow> bool" where
  "factory_contract env \<longleftrightarrow>
     (\<forall>v t st.
        length (heap st) \<le> fst (from_value env v t st) \<and>
        fst (from_value env v t st) < length (heap (snd (from_value env v t st))) \<and>
        v_tracker (heap (snd (from_value env v t st)) ! fst (from_value env v t st)) = t \<and>
        trackers_kept st (snd (from_value env v t st)))"


section \<open>PaddleApiVariable and TensorFunctionVariable: the unsupported set\<close>

text \<open>
  Claim C4. When the wrapped API (for \<^verbatim>\<open>TensorFunctionVariable\<close>, the method name) is in
  the unsupported set, \<^verbatim>\<open>call_function\<close> raises a \<^verbatim>\<open>BreakGraphError\<close> and the state
  (store and graph) is the one before the call; otherwise the call is the graph
  builder's \<^verbatim>\<open>call_paddle_api\<close> (\<^verbatim>\<open>call_tensor_method\<close>), result and state. The message
  of \<^verbatim>\<open>PaddleApiVariable\<close> reads \<^verbatim>\<open>value.__name__\<close>, which an API function has; the
  second conjunct says that the state is untouched even where it has none.
\<close>

theorem unsupported_api_breaks_before_mutation:
  "(is_break_graph_api env v \<longrightarrow> dunder_name v = Some n \<longrightarrow>
      PaddleApiVariable_call_function env v args kw st =
        (Inl (BreakGraphError (Some (''breakgraph by unsupport function: '' @ n))), st))
   \<and> (is_break_graph_api env v \<longrightarrow> snd (PaddleApiVariable_call_function env v args kw st) = st)
   \<and> (\<not> is_break_graph_api env v \<longrightarrow>
        PaddleApiVariable_call_function env v args kw st = call_paddle_api env v args kw st)
   \<and> (is_break_graph_tensor_methods env m \<longrightarrow>
        TensorFunctionVariable_call_function env m args kw st = (Inl (BreakGraphError None), st))
   \<and> (\<not> is_break_graph_tensor_methods env m \<longrightarrow>
        TensorFunctionVariable_call_function env m args kw st = call_tensor_method env m args kw st)"
  by (simp add: PaddleApiVariable_call_function_def TensorFunctionVariable_call_function_def
        split: option.split)

text \<open>The statement at the unsupported \<^verbatim>\<open>to_tensor\<close> and \<^verbatim>\<open>numpy\<close>, and at two supported names.\<close>

theorem unsupported_api_breaks_before_mutation_witness:
  "is_break_graph_api example_env (HFunction ''to_tensor'')
   \<and> PaddleApiVariable_call_function example_env (HFunction ''to_tensor'') [0] [] example_state =
        (Inl (BreakGraphError (Some ''breakgraph by unsupport function: to_tensor'')), example_state)
   \<and> \<not> is_break_graph_api example_env (HFunction ''relu'')
   \<and> PaddleApiVariable_call_function example_env (HFunction ''relu'') [0] [] example_state =
        call_paddle_api example_env (HFunction ''relu'') [0] [] example_state
   \<and> is_break_graph_tensor_methods example_env ''numpy''
   \<and> TensorFunctionVariable_call_function example_env ''numpy'' [0] [] example_state =
        (Inl (BreakGraphError None), example_state)
   \<and> \<not> is_break_graph_tensor_methods example_env ''reshape''
   \<and> TensorFunctionVariable_call_function example_env ''reshape'' [0] [] example_state =
        call_tensor_method example_env ''reshape'' [0] [] example_state"
  using unsupported_api_breaks_before_mutation
          [of example_env "HFunction ''to_tensor''" "''to_tensor''" "[0]" "[]" example_state "''numpy''"]
        unsupported_api_breaks_before_mutation
          [of example_env "HFunction ''relu''" "''relu''" "[0]" "[]" example_state "''reshape''"]
  by (simp add: example_env_def)

section \<open>UserDefinedFunctionVariable: checkpoint and restore\<close>

text \<open>
  Claim C1. For a function that is not a debug intrinsic: when the inline execution
  raises an exception of class \<^verbatim>\<open>FallbackErrorBase\<close>, \<^verbatim>\<open>call_function\<close> raises a
  \<^verbatim>\<open>BreakGraphError\<close> whose message carries the cause, and the graph is the checkpoint
  taken before the attempt, restored over whatever the attempt left; with a checkpoint
  that round-trips, that is the graph before the call. When the inline execution
  returns, its result and its state are the call's: nothing is restored.
\<close>

theorem inline_call_checkpoint_protocol:
  assumes "\<not> is_debug_intrinsic v"
  shows "(inline_call env self args kw st = (Inl e, st') \<longrightarrow> is_FallbackErrorBase e \<longrightarrow>
            UserDefinedFunctionVariable_call_function env self v args kw st =
              (Inl (BreakGraphError (Some (host_str env v
                      @ '' is raise a inline call error. '' @ error_str e))),
               st'\<lparr>graph := restore_memo env (save_memo env (graph st)) (graph st')\<rparr>))
       \<and> (inline_call env self args kw st = (Inl e, st') \<longrightarrow> is_FallbackErrorBase e \<longrightarrow>
            memo_roundtrip env \<longrightarrow>
            graph (snd (UserDefinedFunctionVariable_call_function env self v args kw st)) = graph st)
       \<and> (inline_call env self args kw st = (Inr out, st'') \<longrightarrow>
            UserDefinedFunctionVariable_call_function env self v args kw st = (Inr out, st''))"
proof -
  from assms have h: "handle_psdb_function env v args kw st = (Inr None, st)"
    by (simp add: handle_psdb_function_def is_debug_intrinsic_def)
  show ?thesis
    by (simp add: UserDefinedFunctionVariable_call_function_def h memo_roundtrip_def)
qed

text \<open>
  A failing inline call that had appended \<^verbatim>\<open>partial\<close> to the graph, and a successful
  one.
\<close>

theorem inline_call_checkpoint_protocol_witness:
  "\<not> is_debug_intrinsic (HFunction ''foo'')
   \<and> inline_call example_env 2 [] [] example_state =
        (Inl (FallbackError ''unsupported opcode''),
         example_state\<lparr>graph := [''stmt0'', ''partial'']\<rparr>)
   \<and> is_FallbackErrorBase (FallbackError ''unsupported opcode'')
   \<and> memo_roundtrip example_env
   \<and> UserDefinedFunctionVariable_call_function example_env 2 (HFunction ''foo'') [] [] example_state =
        (Inl (BreakGraphError
               (Some ''<function foo> is raise a inline call error. unsupported opcode'')),
         example_state)
   \<and> graph (snd (UserDefinedFunctionVariable_call_function example_env 2 (HFunction ''foo'')
                   [] [] example_state)) = graph example_state
   \<and> inline_call example_env 2 [0] [] example_state =
        (Inr 0, example_state\<lparr>graph := [''stmt0'', ''inlined'']\<rparr>)
   \<and> UserDefinedFunctionVariable_call_function example_env 2 (HFunction ''foo'') [0] [] example_state =
        (Inr 0, example_state\<lparr>graph := [''stmt0'', ''inlined'']\<rparr>)"
proof -
  have a: "\<not> is_debug_intrinsic (HFunction ''foo'')"
    by (simp add: is_debug_intrinsic_def)
  have r: "memo_roundtrip example_env"
    by (simp add: memo_roundtrip_def example_env_def)
  show ?thesis
    using a r
      inline_call_checkpoint_protocol [OF a, of example_env 2 "[]" "[]" example_state
        "FallbackError ''unsupported opcode''" "example_state\<lparr>graph := [''stmt0'', ''partial'']\<rparr>" 0 example_state]
      inline_call_checkpoint_protocol [OF a, of example_env 2 "[0]" "[]" example_state
        "FallbackError ''x''" example_state 0 "example_state\<lparr>graph := [''stmt0'', ''inlined'']\<rparr>"]
    by (simp add: example_env_def example_state_def)
qed

section \<open>BuiltinVariable: dispatcher, magic methods, break\<close>

text \<open>
  \<^verbatim>\<open>sorted_args[0]\<close> is the first argument, or the last one when the tuple was reversed.
\<close>

lemma sorted_args_head:
  "args \<noteq> [] \<Longrightarrow>
     (case (if r then rev args else args) of [] \<Rightarrow> x | a0 # as \<Rightarrow> f a0) =
       f (if r then last args else hd args)"
  by (cases args; cases "rev args") (auto simp: hd_rev [symmetric])

declare magic_method_scan.simps [simp del]

lemma scan_step_no_match:
  assumes "args \<noteq> []" and "candidate_lookup env st args c = None"
  shows "magic_method_scan env invoke args (c # ms) st = magic_method_scan env invoke args ms st"
  using assms
  by (simp add: magic_method_scan.simps(2) candidate_lookup_def checked_operand_def
        sorted_args_head Let_def)

lemma scan_skips_prefix:
  assumes "args \<noteq> []" and "\<forall>c \<in> set pre. candidate_lookup env st args c = None"
  shows "magic_method_scan env invoke args (pre @ ms) st = magic_method_scan env invoke args ms st"
  using assms(2)
proof (induction pre)
  case Nil
  show ?case by simp
next
  case (Cons c pre)
  then show ?case by (simp add: scan_step_no_match [OF assms(1)])
qed

lemma scan_step_match:
  assumes "args \<noteq> []" and "candidate_lookup env st args m = Some class_fn"
    and "dunder_name class_fn = Some n"
  shows "magic_method_scan env invoke args (m # post) st =
     (case from_value env (get_py_type env (heap st ! checked_operand m args))
             (GetAttrTracker (hd args) ''__class__'') st of
        (class_var, st1) \<Rightarrow>
          (case from_value env class_fn (GetAttrTracker class_var n) st1 of
             (fn_var, st2) \<Rightarrow> Some (invoke fn_var args [] st2)))"
proof -
  from assms(1) obtain a as where args: "args = a # as" by (cases args) auto
  have op: "(case (if is_reverse m then rev args else args) of
               [] \<Rightarrow> x | a0 # as \<Rightarrow> f a0) = f (checked_operand m args)" for x :: 'z and f
    unfolding checked_operand_def by (rule sorted_args_head [OF assms(1)])
  have lk: "type_getattr env (get_py_type env (heap st ! checked_operand m args)) (mm_name m)
              = Some class_fn"
    using assms(2) by (simp add: candidate_lookup_def)
  show ?thesis
    unfolding magic_method_scan.simps(2) Let_def op lk
    using assms(3) by (simp add: args split: prod.split)
qed

text \<open>
  The tiers in order: a handler found by the dispatcher decides the call; without one,
  the result of the scan does; a scan that runs to its end gives the
  \<^verbatim>\<open>BreakGraphError\<close> naming the builtin, and with at least one positional argument it
  runs to its end whenever no candidate is defined on its operand's type.
\<close>

lemma builtin_tiers_in_order:
  "(dispatch env v args kw st = Some handler \<longrightarrow>
      BuiltinVariable_call_function env invoke v args kw st = handler args kw st)
   \<and> (dispatch env v args kw st = None \<longrightarrow>
        magic_method_scan env invoke args (magic_method_builtin_dispatch env v) st = Some r \<longrightarrow>
        BuiltinVariable_call_function env invoke v args kw st = r)
   \<and> (dispatch env v args kw st = None \<longrightarrow>
        magic_method_scan env invoke args (magic_method_builtin_dispatch env v) st = None \<longrightarrow>
        BuiltinVariable_call_function env invoke v args kw st =
          (Inl (BreakGraphError (Some (''Not support builtin function: '' @ builtin_name env v))), st))
   \<and> (dispatch env v args kw st = None \<longrightarrow> args \<noteq> [] \<longrightarrow>
        (\<forall>c \<in> set (magic_method_builtin_dispatch env v). candidate_lookup env st args c = None) \<longrightarrow>
        BuiltinVariable_call_function env invoke v args kw st =
          (Inl (BreakGraphError (Some (''Not support builtin function: '' @ builtin_name env v))), st))"
proof -
  have "magic_method_scan env invoke args (magic_method_builtin_dispatch env v) st = None"
    if "args \<noteq> []"
      and "\<forall>c \<in> set (magic_method_builtin_dispatch env v). candidate_lookup env st args c = None"
    using scan_skips_prefix [OF that(1), of "magic_method_builtin_dispatch env v" env st invoke "[]"] that(2)
    by (simp add: magic_method_scan.simps(1))
  then show ?thesis
    by (simp add: BuiltinVariable_call_function_def builtin_name_def)
qed

text \<open>With no positional argument the first candidate already fails on \<^verbatim>\<open>sorted_args[0]\<close>.\<close>

lemma scan_no_arguments:
  "ms \<noteq> [] \<Longrightarrow> magic_method_scan env invoke [] ms st = Some (Inl IndexError, st)"
  by (cases ms) (simp_all add: magic_method_scan.simps(2))

text \<open>
  Claim C2. The claim has the call end in a \<^verbatim>\<open>BreakGraphError\<close> naming the builtin
  whenever neither tier resolves. This evaluates the call of the builtin \<^verbatim>\<open>bool\<close> with
  no argument: the dispatcher has no handler, the candidate \<^verbatim>\<open>__bool__\<close> is scanned,
  and the call ends in \<^verbatim>\<open>IndexError\<close>.
\<close>

theorem builtin_without_arguments_raises_IndexError:
  "dispatch example_env (HType ''bool'') [] [] example_state = None
   \<and> magic_method_builtin_dispatch example_env (HType ''bool'') =
        [\<lparr>mm_name = ''__bool__'', is_reverse = False\<rparr>]
   \<and> BuiltinVariable_call_function example_env (call 1 example_env) (HType ''bool'') [] []
        example_state = (Inl IndexError, example_state)"
  by (simp add: BuiltinVariable_call_function_def example_env_def magic_method_scan.simps(2))

text \<open>
  A match whose method has no \<^verbatim>\<open>__name__\<close>: the class Variable is made, and the
  tracker expression of the function Variable raises before anything is called.
\<close>

lemma scan_step_match_without_name:
  assumes "args \<noteq> []" and "candidate_lookup env st args m = Some class_fn"
    and "dunder_name class_fn = None"
  shows "magic_method_scan env invoke args (m # post) st =
     Some (Inl AttributeError,
           snd (from_value env (get_py_type env (heap st ! checked_operand m args))
                  (GetAttrTracker (hd args) ''__class__'') st))"
proof -
  from assms(1) obtain a as where args: "args = a # as" by (cases args) auto
  have op: "(case (if is_reverse m then rev args else args) of
               [] \<Rightarrow> x | a0 # as \<Rightarrow> f a0) = f (checked_operand m args)" for x :: 'z and f
    unfolding checked_operand_def by (rule sorted_args_head [OF assms(1)])
  have lk: "type_getattr env (get_py_type env (heap st ! checked_operand m args)) (mm_name m)
              = Some class_fn"
    using assms(2) by (simp add: candidate_lookup_def)
  show ?thesis
    unfolding magic_method_scan.simps(2) Let_def op lk
    using assms(3) by (simp add: args split: prod.split)
qed

lemma magic_method_match_without_name:
  assumes "dispatch env v args kw st = None"
    and "magic_method_builtin_dispatch env v = pre @ m # post"
    and "args \<noteq> []"
    and "\<forall>c \<in> set pre. candidate_lookup env st args c = None"
    and "candidate_lookup env st args m = Some class_fn"
    and "dunder_name class_fn = None"
  shows "BuiltinVariable_call_function env invoke v args kw st =
     (Inl AttributeError,
      snd (from_value env (get_py_type env (heap st ! checked_operand m args))
             (GetAttrTracker (hd args) ''__class__'') st))"
proof -
  have "magic_method_scan env invoke args (pre @ m # post) st =
          magic_method_scan env invoke args (m # post) st"
    using assms(3,4) by (rule scan_skips_prefix)
  then show ?thesis
    using assms(1,2) scan_step_match_without_name [OF assms(3,5,6), of invoke post]
    by (simp add: BuiltinVariable_call_function_def)
qed

text \<open>
  Claim C3. The claim has the method found by the first matching name always called
  with the arguments in their original order, and its result returned. This evaluates
  \<^verbatim>\<open>add\<close> on the layer and an object: \<^verbatim>\<open>__add__\<close> is defined on the layer's class, as a
  callable object without \<^verbatim>\<open>__name__\<close>; the class Variable is made, nothing is
  called, and the call ends in \<^verbatim>\<open>AttributeError\<close> from \<^verbatim>\<open>class_fn.__name__\<close>, an
  attribute the message of the last tier reads only after \<^verbatim>\<open>hasattr\<close>.
\<close>

theorem magic_method_without_name_raises_AttributeError:
  "dispatch example_env (HFunction ''add'') [3, 0] [] example_state = None
   \<and> magic_method_builtin_dispatch example_env (HFunction ''add'') =
        [\<lparr>mm_name = ''__add__'', is_reverse = False\<rparr>,
         \<lparr>mm_name = ''__radd__'', is_reverse = True\<rparr>]
   \<and> candidate_lookup example_env example_state [3, 0]
        \<lparr>mm_name = ''__add__'', is_reverse = False\<rparr> = Some (HCallable 0)
   \<and> dunder_name (HCallable 0) = None
   \<and> BuiltinVariable_call_function example_env (call 1 example_env) (HFunction ''add'') [3, 0] []
        example_state =
      (Inl AttributeError,
       \<lparr>heap = heap example_state @
          [\<lparr>v_obj = OtherVariable (HType ''Layer''), v_tracker = GetAttrTracker 3 ''__class__''\<rparr>],
        graph = [''stmt0'']\<rparr>)"
  by (simp add: BuiltinVariable_call_function_def example_env_def example_state_def
        magic_method_scan.simps(2) candidate_lookup_def checked_operand_def alloc_def)

text \<open>
  Where the method found has a \<^verbatim>\<open>__name__\<close>: candidates are scanned in order; the type
  checked for a candidate is that of the first positional argument for a forward name
  and of the last for a reflected name; the first candidate that is defined is resolved
  through the factory and called with the arguments in their original order, and the
  candidates after it play no part in the result.
\<close>

lemma magic_method_first_match:
  assumes "dispatch env v args kw st = None"
    and "magic_method_builtin_dispatch env v = pre @ m # post"
    and "args \<noteq> []"
    and "\<forall>c \<in> set pre. candidate_lookup env st args c = None"
    and "candidate_lookup env st args m = Some class_fn"
    and "dunder_name class_fn = Some n"
  shows "BuiltinVariable_call_function env invoke v args kw st =
     (case from_value env (get_py_type env (heap st ! checked_operand m args))
             (GetAttrTracker (hd args) ''__class__'') st of
        (class_var, st1) \<Rightarrow>
          (case from_value env class_fn (GetAttrTracker class_var n) st1 of
             (fn_var, st2) \<Rightarrow> invoke fn_var args [] st2))"
proof -
  have "magic_method_scan env invoke args (pre @ m # post) st =
          magic_method_scan env invoke args (m # post) st"
    using assms(3,4) by (rule scan_skips_prefix)
  then show ?thesis
    using assms(1,2) scan_step_match [OF assms(3,5,6), of invoke post]
    by (simp add: BuiltinVariable_call_function_def split: prod.split)
qed

text \<open>
  \<^verbatim>\<open>add\<close> on two objects of which only the second one's type defines \<^verbatim>\<open>__radd__\<close>:
  \<^verbatim>\<open>__add__\<close> is skipped, \<^verbatim>\<open>__radd__\<close> is found on the last argument and called with
  \<open>[0, 1]\<close>.
\<close>

lemma magic_method_first_match_example:
  "dispatch example_env (HFunction ''add'') [0, 1] [] example_state = None
   \<and> magic_method_builtin_dispatch example_env (HFunction ''add'') =
        [\<lparr>mm_name = ''__add__'', is_reverse = False\<rparr>] @
        \<lparr>mm_name = ''__radd__'', is_reverse = True\<rparr> # []
   \<and> candidate_lookup example_env example_state [0, 1]
        \<lparr>mm_name = ''__add__'', is_reverse = False\<rparr> = None
   \<and> checked_operand \<lparr>mm_name = ''__radd__'', is_reverse = True\<rparr> [0, 1] = 1
   \<and> candidate_lookup example_env example_state [0, 1]
        \<lparr>mm_name = ''__radd__'', is_reverse = True\<rparr> = Some (HFunction ''__radd__'')
   \<and> BuiltinVariable_call_function example_env (call 1 example_env) (HFunction ''add'') [0, 1] []
        example_state =
      (Inr 0,
       \<lparr>heap = heap example_state @
          [\<lparr>v_obj = OtherVariable (HType ''B''), v_tracker = GetAttrTracker 0 ''__class__''\<rparr>,
           \<lparr>v_obj = UserDefinedFunctionVariable (HFunction ''__radd__''),
            v_tracker = GetAttrTracker 5 ''__radd__''\<rparr>],
        graph = [''stmt0'', ''inlined'']\<rparr>)"
proof -
  have d: "dispatch example_env (HFunction ''add'') [0, 1] [] example_state = None"
    by (simp add: example_env_def)
  have ms: "magic_method_builtin_dispatch example_env (HFunction ''add'') =
        [\<lparr>mm_name = ''__add__'', is_reverse = False\<rparr>] @
        \<lparr>mm_name = ''__radd__'', is_reverse = True\<rparr> # []"
    by (simp add: example_env_def)
  have ne: "[0, 1::nat] \<noteq> []" by simp
  have pre: "\<forall>c \<in> set [\<lparr>mm_name = ''__add__'', is_reverse = False\<rparr>].
               candidate_lookup example_env example_state [0, 1] c = None"
    by (simp add: candidate_lookup_def checked_operand_def example_env_def example_state_def)
  have co: "checked_operand \<lparr>mm_name = ''__radd__'', is_reverse = True\<rparr> [0, 1] = 1"
    by (simp add: checked_operand_def)
  have m: "candidate_lookup example_env example_state [0, 1]
        \<lparr>mm_name = ''__radd__'', is_reverse = True\<rparr> = Some (HFunction ''__radd__'')"
    by (simp add: candidate_lookup_def checked_operand_def example_env_def example_state_def)
  have n: "dunder_name (HFunction ''__radd__'') = Some ''__radd__''" by simp
  note r = magic_method_first_match [OF d ms ne pre m n, of "call 1 example_env"]
  have "BuiltinVariable_call_function example_env (call 1 example_env) (HFunction ''add'') [0, 1] []
        example_state =
      (Inr 0,
       \<lparr>heap = heap example_state @
          [\<lparr>v_obj = OtherVariable (HType ''B''), v_tracker = GetAttrTracker 0 ''__class__''\<rparr>,
           \<lparr>v_obj = UserDefinedFunctionVariable (HFunction ''__radd__''),
            v_tracker = GetAttrTracker 5 ''__radd__''\<rparr>],
        graph = [''stmt0'', ''inlined'']\<rparr>)"
    unfolding r co
    by (simp add: example_env_def example_state_def alloc_def
          UserDefinedFunctionVariable_call_function_def handle_psdb_function_def)
  with d ms pre co m show ?thesis by simp
qed

section \<open>Trackers\<close>

lemma trackers_kept_refl: "trackers_kept st st"
  by (simp add: trackers_kept_def)

lemma trackers_kept_trans:
  "trackers_kept st st1 \<Longrightarrow> trackers_kept st1 st2 \<Longrightarrow> trackers_kept st st2"
  by (auto simp: trackers_kept_def)

lemma trackers_kept_alloc: "trackers_kept st (snd (alloc v st))"
  by (simp add: trackers_kept_def alloc_def nth_append)

lemma trackers_kept_set_tracker:
  "trackers_kept st0 st \<Longrightarrow> length (heap st0) \<le> a \<Longrightarrow> trackers_kept st0 (set_tracker a t st)"
  by (auto simp: trackers_kept_def set_tracker_def)


lemma factoryD:
  assumes "factory_contract env" and "from_value env v t st = (a, st')"
  shows "length (heap st) \<le> a" and "a < length (heap st')"
    and "v_tracker (heap st' ! a) = t" and "trackers_kept st st'"
  using assms(1) [unfolded factory_contract_def, rule_format, of st v t] assms(2)
  by simp_all

lemma example_env_factory_contract: "factory_contract example_env"
  by (simp add: factory_contract_def trackers_kept_def example_env_def alloc_def nth_append)

text \<open>
  Claim C10. When a candidate matches, the class Variable is created with the tracker
  \<^verbatim>\<open>GetAttrTracker(args[0], "__class__")\<close> and the function Variable with an attribute
  tracker on that class Variable, and they carry these trackers when the resolved
  method is called; for a reflected name, whose method comes from the last operand's
  type, the class Variable's tracker still names the first argument, not the operand.
\<close>

theorem magic_method_trackers_rooted_at_first_argument:
  assumes "factory_contract env"
    and "dispatch env v args kw st = None"
    and "magic_method_builtin_dispatch env v = pre @ m # post"
    and "args \<noteq> []"
    and "\<forall>c \<in> set pre. candidate_lookup env st args c = None"
    and "candidate_lookup env st args m = Some class_fn"
    and "dunder_name class_fn = Some n"
    and "from_value env (get_py_type env (heap st ! checked_operand m args))
           (GetAttrTracker (hd args) ''__class__'') st = (class_var, st1)"
    and "from_value env class_fn (GetAttrTracker class_var n) st1 = (fn_var, st2)"
  shows "BuiltinVariable_call_function env invoke v args kw st = invoke fn_var args [] st2
       \<and> v_tracker (heap st2 ! class_var) = GetAttrTracker (hd args) ''__class__''
       \<and> v_tracker (heap st2 ! fn_var) = GetAttrTracker class_var n
       \<and> (checked_operand m args \<noteq> hd args \<longrightarrow>
            v_tracker (heap st2 ! class_var) \<noteq> GetAttrTracker (checked_operand m args) ''__class__'')"
proof -
  have "magic_method_scan env invoke args (pre @ m # post) st =
          magic_method_scan env invoke args (m # post) st"
    using assms(4,5) by (rule scan_skips_prefix)
  then have call: "BuiltinVariable_call_function env invoke v args kw st = invoke fn_var args [] st2"
    using assms(2,3,8,9) scan_step_match [OF assms(4,6,7), of invoke post]
    by (simp add: BuiltinVariable_call_function_def)
  have c1: "v_tracker (heap st1 ! class_var) = GetAttrTracker (hd args) ''__class__''"
    and b1: "class_var < length (heap st1)"
    using factoryD [OF assms(1,8)] by simp_all
  have k2: "trackers_kept st1 st2" and f2: "v_tracker (heap st2 ! fn_var) = GetAttrTracker class_var n"
    using factoryD [OF assms(1,9)] by simp_all
  from k2 b1 c1 have c2: "v_tracker (heap st2 ! class_var) = GetAttrTracker (hd args) ''__class__''"
    by (simp add: trackers_kept_def)
  from call c2 f2 show ?thesis by simp
qed

text \<open>The reflected \<^verbatim>\<open>__radd__\<close> found on argument 1: the class Variable is rooted at argument 0.\<close>

theorem magic_method_trackers_rooted_at_first_argument_witness:
  "factory_contract example_env
   \<and> dispatch example_env (HFunction ''add'') [0, 1] [] example_state = None
   \<and> is_reverse \<lparr>mm_name = ''__radd__'', is_reverse = True\<rparr>
   \<and> checked_operand \<lparr>mm_name = ''__radd__'', is_reverse = True\<rparr> [0, 1] = 1
   \<and> hd [0, 1 :: nat] = 0
   \<and> candidate_lookup example_env example_state [0, 1]
        \<lparr>mm_name = ''__radd__'', is_reverse = True\<rparr> = Some (HFunction ''__radd__'')
   \<and> from_value example_env (HType ''B'') (GetAttrTracker 0 ''__class__'') example_state =
        alloc \<lparr>v_obj = OtherVariable (HType ''B''), v_tracker = GetAttrTracker 0 ''__class__''\<rparr>
          example_state
   \<and> fst (alloc \<lparr>v_obj = OtherVariable (HType ''B''), v_tracker = GetAttrTracker 0 ''__class__''\<rparr>
             example_state) = 5
   \<and> v_tracker (heap (snd (from_value example_env (HFunction ''__radd__'')
         (GetAttrTracker 5 ''__radd__'')
         (snd (alloc \<lparr>v_obj = OtherVariable (HType ''B''),
                       v_tracker = GetAttrTracker 0 ''__class__''\<rparr> example_state)))) ! 5)
       = GetAttrTracker 0 ''__class__''
   \<and> v_tracker (heap (snd (from_value example_env (HFunction ''__radd__'')
         (GetAttrTracker 5 ''__radd__'')
         (snd (alloc \<lparr>v_obj = OtherVariable (HType ''B''),
                       v_tracker = GetAttrTracker 0 ''__class__''\<rparr> example_state)))) ! 6)
       = GetAttrTracker 5 ''__radd__''
   \<and> v_tracker (heap (snd (from_value example_env (HFunction ''__radd__'')
         (GetAttrTracker 5 ''__radd__'')
         (snd (alloc \<lparr>v_obj = OtherVariable (HType ''B''),
                       v_tracker = GetAttrTracker 0 ''__class__''\<rparr> example_state)))) ! 5)
       \<noteq> GetAttrTracker 1 ''__class__''"
proof -
  let ?cv = "\<lparr>v_obj = OtherVariable (HType ''B''), v_tracker = GetAttrTracker 0 ''__class__''\<rparr>"
  let ?st1 = "snd (alloc ?cv example_state)"
  let ?st2 = "snd (from_value example_env (HFunction ''__radd__'') (GetAttrTracker 5 ''__radd__'') ?st1)"
  have d: "dispatch example_env (HFunction ''add'') [0, 1] [] example_state = None"
    by (simp add: example_env_def)
  have ms: "magic_method_builtin_dispatch example_env (HFunction ''add'') =
        [\<lparr>mm_name = ''__add__'', is_reverse = False\<rparr>] @
        \<lparr>mm_name = ''__radd__'', is_reverse = True\<rparr> # []"
    by (simp add: example_env_def)
  have ne: "[0, 1::nat] \<noteq> []" by simp
  have pre: "\<forall>c \<in> set [\<lparr>mm_name = ''__add__'', is_reverse = False\<rparr>].
               candidate_lookup example_env example_state [0, 1] c = None"
    by (simp add: candidate_lookup_def checked_operand_def example_env_def example_state_def)
  have co: "checked_operand \<lparr>mm_name = ''__radd__'', is_reverse = True\<rparr> [0, 1] = 1"
    by (simp add: checked_operand_def)
  have m: "candidate_lookup example_env example_state [0, 1]
        \<lparr>mm_name = ''__radd__'', is_reverse = True\<rparr> = Some (HFunction ''__radd__'')"
    by (simp add: candidate_lookup_def checked_operand_def example_env_def example_state_def)
  have n: "dunder_name (HFunction ''__radd__'') = Some ''__radd__''" by simp
  have fv1: "from_value example_env (HType ''B'') (GetAttrTracker 0 ''__class__'') example_state =
        alloc ?cv example_state"
    by (simp add: example_env_def)
  have a5: "fst (alloc ?cv example_state) = 5"
    by (simp add: alloc_def example_state_def)
  have f1: "from_value example_env
              (get_py_type example_env (heap example_state !
                 checked_operand \<lparr>mm_name = ''__radd__'', is_reverse = True\<rparr> [0, 1]))
              (GetAttrTracker (hd [0, 1]) ''__class__'') example_state = (5, ?st1)"
    by (simp add: checked_operand_def example_env_def example_state_def alloc_def)
  have f2: "from_value example_env (HFunction ''__radd__'') (GetAttrTracker 5 ''__radd__'') ?st1
              = (6, ?st2)"
    by (simp add: example_env_def alloc_def example_state_def)
  note r = magic_method_trackers_rooted_at_first_argument
             [OF example_env_factory_contract d ms ne pre m n f1 f2, of "call 1 example_env"]
  show ?thesis
    using r example_env_factory_contract d co m fv1 a5 by simp
qed

subsection \<open>MethodVariable.wrap_method\<close>

lemma trackers_kept_alloc_after:
  "trackers_kept st0 st \<Longrightarrow> trackers_kept st0 (snd (alloc v st))"
  using trackers_kept_trans [OF _ trackers_kept_alloc] .

lemma wrap_method_both_missing:
  assumes "from_value env s DanglingTracker st = (i, st1)"
    and "from_value env f DanglingTracker st1 = (fv, st2)"
  shows "wrap_method env (HMethod s f) t None None mn st =
     (Inr (length (heap st2)),
      set_tracker fv (GetAttrTracker (length (heap st2)) ''__func__'')
        (set_tracker i (GetAttrTracker (length (heap st2)) ''__self__'')
           (st2\<lparr>heap := heap st2 @ [\<lparr>v_obj = MethodVariable i fv mn, v_tracker = t\<rparr>]\<rparr>)))"
  using assms by (simp add: wrap_method_def alloc_def)

text \<open>
  A value with \<^verbatim>\<open>__self__\<close> but no \<^verbatim>\<open>__func__\<close>, with nothing supplied: the instance
  Variable is made, dangling, before \<^verbatim>\<open>value.__func__\<close> raises.
\<close>

lemma wrap_method_without_func:
  assumes "from_value env s DanglingTracker st = (i, st1)"
  shows "wrap_method env (HBuiltinMethod s n) t None None mn st = (Inl AttributeError, st1)"
  using assms by (simp add: wrap_method_def)

lemma wrap_method_trackers_kept:
  assumes fc: "factory_contract env"
  shows "trackers_kept st (snd (wrap_method env val t instance fn mn st))"
proof (cases "instance")
  case inst: None
  show ?thesis
  proof (cases "dunder_self val")
    case None
    then show ?thesis by (simp add: wrap_method_def inst trackers_kept_refl)
  next
    case s: (Some s)
    obtain i st1 where i: "from_value env s DanglingTracker st = (i, st1)" by force
    note I = factoryD [OF fc i]
    show ?thesis
    proof (cases fn)
      case fnn: None
      show ?thesis
      proof (cases "dunder_func val")
        case None
        then show ?thesis using I(4) by (simp add: wrap_method_def inst s i fnn)
      next
        case f: (Some f)
        obtain fv st2 where fv: "from_value env f DanglingTracker st1 = (fv, st2)" by force
        note F = factoryD [OF fc fv]
        have k: "trackers_kept st st2" using I(4) F(4) by (rule trackers_kept_trans)
        have le: "length (heap st) \<le> fv"
          using I(4) F(1) by (simp add: trackers_kept_def)
        show ?thesis
          using k le I(1)
          by (simp add: wrap_method_def inst s i fnn f fv split: prod.split)
             (auto intro!: trackers_kept_set_tracker simp: alloc_def
                intro: trackers_kept_trans trackers_kept_alloc [unfolded alloc_def, simplified])
      qed
    next
      case fns: (Some f0)
      show ?thesis
        using I(4) I(1)
        by (simp add: wrap_method_def inst s i fns split: prod.split)
           (auto intro!: trackers_kept_set_tracker simp: alloc_def
              intro: trackers_kept_trans trackers_kept_alloc [unfolded alloc_def, simplified])
    qed
  qed
next
  case insts: (Some i0)
  show ?thesis
  proof (cases fn)
    case fnn: None
    show ?thesis
    proof (cases "dunder_func val")
      case None
      then show ?thesis by (simp add: wrap_method_def insts fnn trackers_kept_refl)
    next
      case f: (Some f)
      obtain fv st2 where fv: "from_value env f DanglingTracker st = (fv, st2)" by force
      note F = factoryD [OF fc fv]
      show ?thesis
        using F(4) F(1)
        by (simp add: wrap_method_def insts fnn f fv split: prod.split)
           (auto intro!: trackers_kept_set_tracker simp: alloc_def
              intro: trackers_kept_trans trackers_kept_alloc [unfolded alloc_def, simplified])
    qed
  next
    case fns: (Some f0)
    show ?thesis
      by (simp add: wrap_method_def insts fns split: prod.split)
         (auto simp: alloc_def trackers_kept_def nth_append)
  qed
qed

text \<open>
  Claim C6. \<^verbatim>\<open>wrap_method\<close> on a bound method, with no instance and no function
  Variable supplied: both are made by the factory with a \<^verbatim>\<open>DanglingTracker\<close>, which
  they still carry in the state in which the \<^verbatim>\<open>MethodVariable\<close> is constructed, at an
  address that does not exist before; in the final state the \<^verbatim>\<open>MethodVariable\<close> holds
  the two, and their trackers are \<^verbatim>\<open>GetAttrTracker(method_var, "__self__")\<close> and
  \<^verbatim>\<open>GetAttrTracker(method_var, "__func__")\<close>, so neither is dangling. A Variable the
  caller supplies, as instance or as function, keeps its tracker.
\<close>

theorem wrap_method_reroots_owned_variables:
  assumes fc: "factory_contract env"
    and i: "from_value env s DanglingTracker st = (i, st1)"
    and f: "from_value env f DanglingTracker st1 = (fv, st2)"
  shows "fst (wrap_method env (HMethod s f) t None None mn st) = Inr (length (heap st2))
       \<and> v_tracker (heap st2 ! i) = DanglingTracker
       \<and> v_tracker (heap st2 ! fv) = DanglingTracker
       \<and> i < length (heap st2) \<and> fv < length (heap st2)
       \<and> v_obj (heap (snd (wrap_method env (HMethod s f) t None None mn st)) ! length (heap st2))
            = MethodVariable i fv mn
       \<and> v_tracker (heap (snd (wrap_method env (HMethod s f) t None None mn st)) ! i)
            = GetAttrTracker (length (heap st2)) ''__self__''
       \<and> v_tracker (heap (snd (wrap_method env (HMethod s f) t None None mn st)) ! fv)
            = GetAttrTracker (length (heap st2)) ''__func__''
       \<and> v_tracker (heap (snd (wrap_method env (HMethod s f) t None None mn st)) ! i)
            \<noteq> DanglingTracker
       \<and> v_tracker (heap (snd (wrap_method env (HMethod s f) t None None mn st)) ! fv)
            \<noteq> DanglingTracker
       \<and> (i0 < length (heap st) \<longrightarrow>
            v_tracker (heap (snd (wrap_method env val t (Some i0) fn mn st)) ! i0)
              = v_tracker (heap st ! i0))
       \<and> (f0 < length (heap st) \<longrightarrow>
            v_tracker (heap (snd (wrap_method env val t inst (Some f0) mn st)) ! f0)
              = v_tracker (heap st ! f0))"
proof -
  note I = factoryD [OF fc i] and F = factoryD [OF fc f]
  have i2: "i < length (heap st2)" and i1: "i < length (heap st1)"
    using I(2) F(4) by (simp_all add: trackers_kept_def)
  have ne: "i \<noteq> fv" using I(2) F(1) by simp
  have di: "v_tracker (heap st2 ! i) = DanglingTracker"
    using I(3) i1 F(4) by (simp add: trackers_kept_def)
  have sup1: "v_tracker (heap (snd (wrap_method env val t (Some i0) fn mn st)) ! i0)
              = v_tracker (heap st ! i0)" if "i0 < length (heap st)"
    using wrap_method_trackers_kept [OF fc, of st val t "Some i0" fn mn] that
    by (simp add: trackers_kept_def)
  have sup2: "v_tracker (heap (snd (wrap_method env val t inst (Some f0) mn st)) ! f0)
              = v_tracker (heap st ! f0)" if "f0 < length (heap st)"
    using wrap_method_trackers_kept [OF fc, of st val t inst "Some f0" mn] that
    by (simp add: trackers_kept_def)
  show ?thesis
    using i2 F(2) F(3) ne di sup1 sup2
    by (simp add: wrap_method_both_missing [OF i f] set_tracker_def nth_append)
qed

text \<open>
  A bound method wrapped with nothing supplied (addresses 5, 6 and 7 are new), and with
  the Variable at address 3 supplied as instance.
\<close>

theorem wrap_method_reroots_owned_variables_witness:
  "factory_contract example_env
   \<and> wrap_method example_env (HMethod (HObject 3) (HFunction ''forward'')) (OtherTracker ''m'')
        None None None example_state =
      (Inr 7,
       \<lparr>heap = heap example_state @
          [\<lparr>v_obj = OtherVariable (HObject 3), v_tracker = GetAttrTracker 7 ''__self__''\<rparr>,
           \<lparr>v_obj = UserDefinedFunctionVariable (HFunction ''forward''),
            v_tracker = GetAttrTracker 7 ''__func__''\<rparr>,
           \<lparr>v_obj = MethodVariable 5 6 None, v_tracker = OtherTracker ''m''\<rparr>],
        graph = graph example_state\<rparr>)
   \<and> v_tracker (heap (snd (wrap_method example_env (HMethod (HObject 3) (HFunction ''forward''))
        (OtherTracker ''m'') (Some 3) None None example_state)) ! 3) = OtherTracker ''net''"
proof -
  let ?st1 = "snd (from_value example_env (HObject 3) DanglingTracker example_state)"
  let ?st2 = "snd (from_value example_env (HFunction ''forward'') DanglingTracker ?st1)"
  have i: "from_value example_env (HObject 3) DanglingTracker example_state = (5, ?st1)"
    by (simp add: example_env_def alloc_def example_state_def)
  have f: "from_value example_env (HFunction ''forward'') DanglingTracker ?st1 = (6, ?st2)"
    by (simp add: example_env_def alloc_def example_state_def)
  have l3: "(3::nat) < length (heap example_state)" by (simp add: example_state_def)
  note r = wrap_method_reroots_owned_variables [OF example_env_factory_contract i f,
             of "OtherTracker ''m''" None 3 "HMethod (HObject 3) (HFunction ''forward'')" None]
  have e: "wrap_method example_env (HMethod (HObject 3) (HFunction ''forward'')) (OtherTracker ''m'')
        None None None example_state =
      (Inr 7,
       \<lparr>heap = heap example_state @
          [\<lparr>v_obj = OtherVariable (HObject 3), v_tracker = GetAttrTracker 7 ''__self__''\<rparr>,
           \<lparr>v_obj = UserDefinedFunctionVariable (HFunction ''forward''),
            v_tracker = GetAttrTracker 7 ''__func__''\<rparr>,
           \<lparr>v_obj = MethodVariable 5 6 None, v_tracker = OtherTracker ''m''\<rparr>],
        graph = graph example_state\<rparr>)"
    by (simp add: wrap_method_def example_env_def alloc_def example_state_def set_tracker_def)
  from r l3 have "v_tracker (heap (snd (wrap_method example_env
        (HMethod (HObject 3) (HFunction ''forward''))
        (OtherTracker ''m'') (Some 3) None None example_state)) ! 3)
          = v_tracker (heap example_state ! 3)"
    by blast
  then show ?thesis
    using example_env_factory_contract e by (simp add: example_state_def)
qed

subsection \<open>Every operation but bind keeps the trackers\<close>















section \<open>The reason of a break-graph condition\<close>

text \<open>
  Claim C7. The claim has every break-graph condition of the hierarchy carry a reason.
  This evaluates \<^verbatim>\<open>TensorFunctionVariable.call_function\<close> on the unsupported method
  \<^verbatim>\<open>numpy\<close>: the \<^verbatim>\<open>BreakGraphError\<close> is raised with no argument, where
  \<^verbatim>\<open>PaddleApiVariable.call_function\<close> on an unsupported API raises it with a message.
\<close>

theorem tensor_method_break_without_reason:
  "is_break_graph_tensor_methods example_env ''numpy''
   \<and> TensorFunctionVariable_call_function example_env ''numpy'' [0] [] example_state =
        (Inl (BreakGraphError None), example_state)
   \<and> PaddleApiVariable_call_function example_env (HFunction ''to_tensor'') [0] [] example_state =
        (Inl (BreakGraphError (Some ''breakgraph by unsupport function: to_tensor'')), example_state)"
  by (simp add: TensorFunctionVariable_call_function_def PaddleApiVariable_call_function_def
        example_env_def)

section \<open>LayerVariable: the guard\<close>



section \<open>UserDefinedGeneratorVariable\<close>

text \<open>
  Claim C9. \<^verbatim>\<open>call_function\<close> does not depend on the arguments it is given: it calls
  the wrapped function with no argument and returns what the factory makes of the
  generator object, with the tracker \<^verbatim>\<open>DummyTracker([self])\<close>; the state after the call
  is the one the factory returns, so the graph is as before whenever the factory leaves
  it alone. When the wrapped function raises, the exception passes and the state is
  unchanged.
\<close>

theorem generator_call_ignores_arguments:
  "UserDefinedGeneratorVariable_call_function env self v args kw st =
     UserDefinedGeneratorVariable_call_function env self v [] [] st
   \<and> (host_call env v [] = Inr it \<longrightarrow>
        UserDefinedGeneratorVariable_call_function env self v args kw st =
          (Inr (fst (from_value env it (DummyTracker [self]) st)),
           snd (from_value env it (DummyTracker [self]) st)))
   \<and> (host_call env v [] = Inr it \<longrightarrow> factory_contract env \<longrightarrow>
        v_tracker (heap (snd (UserDefinedGeneratorVariable_call_function env self v args kw st)) !
                   fst (from_value env it (DummyTracker [self]) st)) = DummyTracker [self])
   \<and> (host_call env v [] = Inr it \<longrightarrow>
        graph (snd (from_value env it (DummyTracker [self]) st)) = graph st \<longrightarrow>
        graph (snd (UserDefinedGeneratorVariable_call_function env self v args kw st)) = graph st)
   \<and> (host_call env v [] = Inl e \<longrightarrow>
        UserDefinedGeneratorVariable_call_function env self v args kw st = (Inl e, st))"
proof -
  have "v_tracker (heap (snd (from_value env it (DummyTracker [self]) st)) !
                   fst (from_value env it (DummyTracker [self]) st)) = DummyTracker [self]"
    if "factory_contract env"
    using factoryD(3) [OF that, of it "DummyTracker [self]" st] by (simp add: prod_eq_iff)
  then show ?thesis
    by (simp add: UserDefinedGeneratorVariable_call_function_def case_prod_beta)
qed

text \<open>
  Two positional and one keyword argument, dropped; and a wrapped function that cannot be
  called without arguments.
\<close>

theorem generator_call_ignores_arguments_witness:
  "host_call example_env (HFunction ''gen'') [] = Inr (HObject 7)
   \<and> factory_contract example_env
   \<and> UserDefinedGeneratorVariable_call_function example_env 2 (HFunction ''gen'') [0, 1]
        [(''k'', 0)] example_state =
      (Inr 5,
       \<lparr>heap = heap example_state @
                 [\<lparr>v_obj = OtherVariable (HObject 7), v_tracker = DummyTracker [2]\<rparr>],
        graph = graph example_state\<rparr>)
   \<and> host_call example_env (HFunction ''foo'') [] = Inl (HostError ''TypeError'')
   \<and> UserDefinedGeneratorVariable_call_function example_env 2 (HFunction ''foo'') [0, 1]
        [(''k'', 0)] example_state = (Inl (HostError ''TypeError''), example_state)"
proof -
  have h: "host_call example_env (HFunction ''gen'') [] = Inr (HObject 7)"
    and h': "host_call example_env (HFunction ''foo'') [] = Inl (HostError ''TypeError'')"
    by (simp_all add: example_env_def)
  have fv: "from_value example_env (HObject 7) (DummyTracker [2]) example_state =
      (5, \<lparr>heap = heap example_state @
                 [\<lparr>v_obj = OtherVariable (HObject 7), v_tracker = DummyTracker [2]\<rparr>],
        graph = graph example_state\<rparr>)"
    by (simp add: example_env_def alloc_def example_state_def)
  note r1 = generator_call_ignores_arguments
            [of example_env 2 "HFunction ''gen''" "[0, 1]" "[(''k'', 0)]" example_state
                "HObject 7" "HostError ''x''"]
  note r2 = generator_call_ignores_arguments
            [of example_env 2 "HFunction ''foo''" "[0, 1]" "[(''k'', 0)]" example_state
                "HObject 7" "HostError ''TypeError''"]
  from r1 h have a: "UserDefinedGeneratorVariable_call_function example_env 2 (HFunction ''gen'')
        [0, 1] [(''k'', 0)] example_state =
          (Inr (fst (from_value example_env (HObject 7) (DummyTracker [2]) example_state)),
           snd (from_value example_env (HObject 7) (DummyTracker [2]) example_state))"
    by blast
  from r2 h' have b: "UserDefinedGeneratorVariable_call_function example_env 2 (HFunction ''foo'')
        [0, 1] [(''k'', 0)] example_state = (Inl (HostError ''TypeError''), example_state)"
    by blast
  show ?thesis
    unfolding a b fv using h h' example_env_factory_contract by simp
qed

end
